theory Spec2Isabelle
  imports Main "HOL-Library.Word" "HOL-Library.Signed_Division"
begin

section \<open>Machine types of gstbaseaudiosink.c\<close>

text \<open>
  The C types of the source, as words. A signed type is the same word read with
  \<open>sint\<close>, compared with \<open><s\<close> and divided with \<open>c_sdiv\<close> (C division truncates
  towards zero); an unsigned one is read with \<open>unat\<close>. Additions, subtractions and
  multiplications wrap around, as the compiled code does on a two's complement machine.
\<close>

type_synonym guint64 = "64 word"
type_synonym gint64 = "64 word"
type_synonym gint = "32 word"
type_synonym guint = "32 word"
type_synonym GstClockTime = "64 word"
type_synonym GstClockTimeDiff = "64 word"

definition GST_CLOCK_TIME_NONE :: GstClockTime where
  "GST_CLOCK_TIME_NONE = - 1"

definition G_MAXUINT64 :: guint64 where
  "G_MAXUINT64 = - 1"

definition GST_SECOND :: gint where
  "GST_SECOND = 1000000000"

definition DIFF_TOLERANCE :: gint where
  "DIFF_TOLERANCE = 2"

text \<open>The conversions C applies implicitly: a \<open>gint\<close> widened to 64 bits keeps its sign,
  a \<open>guint\<close> is zero-extended, and a 64-bit value assigned to a \<open>gint\<close> keeps its low
  32 bits.\<close>

definition gint_to_64 :: "gint \<Rightarrow> 64 word" where
  "gint_to_64 x = scast x"

definition guint_to_64 :: "guint \<Rightarrow> 64 word" where
  "guint_to_64 x = ucast x"

definition to_gint :: "64 word \<Rightarrow> gint" where
  "to_gint x = ucast x"

text \<open>C's division of signed integers: the quotient of the signed values, truncated
  towards zero.\<close>

definition c_sdiv :: "'a::len word \<Rightarrow> 'a word \<Rightarrow> 'a word" where
  "c_sdiv a b = word_of_int (sint a sdiv sint b)"

text \<open>A run of the code either returns, or stops on an integer division by zero (or
  \<open>INT_MIN / -1\<close>) or on a missing ring buffer, or is still blocked in the commit loop
  when the recorded answers of the ring buffer end.\<close>

datatype fault = DIV_BY_ZERO | NULL_POINTER | BLOCKED

definition gint_div :: "gint \<Rightarrow> gint \<Rightarrow> fault + gint" where
  "gint_div a b =
     (if b = 0 \<or> (a = - 2147483648 \<and> b = - 1) then Inl DIV_BY_ZERO else Inr (c_sdiv a b))"

definition guint64_div :: "guint64 \<Rightarrow> guint64 \<Rightarrow> fault + guint64" where
  "guint64_div a b = (if b = 0 then Inl DIV_BY_ZERO else Inr (a div b))"

definition guint_mod :: "guint \<Rightarrow> guint \<Rightarrow> fault + guint" where
  "guint_mod a b = (if b = 0 then Inl DIV_BY_ZERO else Inr (a mod b))"

section \<open>Scaling helpers of the core library\<close>

text \<open>
  Modelled from the spec: \<open>gst_util_uint64_scale\<close> and \<open>gst_util_uint64_scale_int\<close>
  belong to the GStreamer core library and are not among the sources. The spec writes
  their result as \<open>val \<cdot> num / denom\<close> (\<open>(ext - ce) \<cdot> rden / rnum\<close>,
  \<open>sample = time \<cdot> rate / 1e9\<close>): the product is formed without overflow and the
  quotient is truncated. The library documents the remaining cases, which are kept
  here: a result that does not fit 64 bits is \<open>G_MAXUINT64\<close>, and an argument the
  function refuses (a zero denominator; for the \<open>_int\<close> variant a denominator that is
  not positive or a negative numerator) makes it return \<open>G_MAXUINT64\<close> as well.
\<close>

definition scale_nat :: "nat \<Rightarrow> nat \<Rightarrow> nat \<Rightarrow> guint64" where
  "scale_nat v n d =
     (if 18446744073709551615 \<le> v * n div d then G_MAXUINT64 else of_nat (v * n div d))"

definition gst_util_uint64_scale :: "guint64 \<Rightarrow> guint64 \<Rightarrow> guint64 \<Rightarrow> guint64" where
  "gst_util_uint64_scale val num denom =
     (if denom = 0 then G_MAXUINT64 else scale_nat (unat val) (unat num) (unat denom))"

definition gst_util_uint64_scale_int :: "guint64 \<Rightarrow> gint \<Rightarrow> gint \<Rightarrow> guint64" where
  "gst_util_uint64_scale_int val num denom =
     (if denom \<le>s 0 then G_MAXUINT64
      else if num <s 0 then G_MAXUINT64
      else scale_nat (unat val) (unat num) (unat denom))"

section \<open>The ring buffer and the sink\<close>

text \<open>
  Modelled from the spec: \<open>GstRingBuffer\<close>, its \<open>spec\<close> and its operations are declared
  and implemented in gstringbuffer.h and gstringbuffer.c, which are not among the
  sources. The record has the fields gstbaseaudiosink.c reads (\<open>spec.rate\<close>,
  \<open>spec.bytes_per_sample\<close>, \<open>spec.segsize\<close>, \<open>spec.latency_time\<close>,
  \<open>samples_per_seg\<close>, \<open>segdone\<close>, \<open>segbase\<close>) and the state the spec gives the ring
  buffer: the acquired flag, the flushing flag, the start flag, the answers of the
  \<open>samples_done()\<close> and \<open>delay()\<close> queries, and the commits it has received.
\<close>

record GstRingBufferSpec =
  rate :: gint
  bytes_per_sample :: gint
  segsize :: gint
  latency_time :: guint64

record commit_call =
  commit_sample :: guint64
  commit_data :: guint64
  commit_in_samples :: guint
  commit_out_samples :: gint
  commit_accum :: gint

record GstRingBuffer =
  acquired :: bool
  flushing :: bool
  started :: bool
  spec :: GstRingBufferSpec
  samples_per_seg :: gint
  segdone :: gint
  segbase :: gint
  samples_done :: guint64
  delay :: guint
  commits :: "commit_call list"

text \<open>Modelled from the spec: \<open>set_flushing(bool)\<close> sets the flushing flag, \<open>start()\<close>
  sets the start flag, \<open>is_acquired()\<close> reads the acquired flag (and is false when
  there is no ring buffer).\<close>

definition gst_ring_buffer_set_flushing :: "GstRingBuffer \<Rightarrow> bool \<Rightarrow> GstRingBuffer" where
  "gst_ring_buffer_set_flushing rb f = rb\<lparr>flushing := f\<rparr>"

definition gst_ring_buffer_start :: "GstRingBuffer \<Rightarrow> GstRingBuffer" where
  "gst_ring_buffer_start rb = rb\<lparr>started := True\<rparr>"

definition gst_ring_buffer_is_acquired :: "GstRingBuffer option \<Rightarrow> bool" where
  "gst_ring_buffer_is_acquired r = (case r of None \<Rightarrow> False | Some rb \<Rightarrow> acquired rb)"

definition gst_ring_buffer_samples_done :: "GstRingBuffer \<Rightarrow> guint64" where
  "gst_ring_buffer_samples_done rb = samples_done rb"

definition gst_ring_buffer_delay :: "GstRingBuffer \<Rightarrow> guint" where
  "gst_ring_buffer_delay rb = delay rb"

datatype GstBaseAudioSinkSlaveMethod =
  GST_BASE_AUDIO_SINK_SLAVE_RESAMPLE
| GST_BASE_AUDIO_SINK_SLAVE_SKEW
| GST_BASE_AUDIO_SINK_SLAVE_NONE
| SLAVE_METHOD_UNKNOWN

text \<open>The calibration stored in the provided clock, read with
  \<open>gst_clock_get_calibration\<close> and written with \<open>gst_clock_set_calibration\<close>.\<close>

record calibration =
  cinternal :: GstClockTime
  cexternal :: GstClockTime
  crate_num :: GstClockTime
  crate_denom :: GstClockTime

text \<open>The sink: the public fields \<open>ringbuffer\<close> and \<open>next_sample\<close>, the private
  structure \<open>_GstBaseAudioSinkPrivate\<close>, the calibration of \<open>provided_clock\<close> and the
  element's \<open>base_time\<close>. \<open>next_sample\<close> and \<open>avg_skew\<close> use \<open>-1\<close> for "none", as the
  source does.\<close>

record GstBaseAudioSink =
  ringbuffer :: "GstRingBuffer option"
  next_sample :: guint64
  us_latency :: GstClockTime
  slave_method :: GstBaseAudioSinkSlaveMethod
  avg_skew :: GstClockTimeDiff
  last_align :: gint64
  provided_clock :: calibration
  base_time :: GstClockTime

section \<open>Events\<close>

datatype GstEventType =
  GST_EVENT_FLUSH_START
| GST_EVENT_FLUSH_STOP
| GST_EVENT_EOS
| GST_EVENT_NEWSEGMENT
| GST_EVENT_OTHER

text \<open>\<open>gst_base_audio_sink_drain\<close>: the time handed to \<open>gst_base_sink_wait_eos\<close>, and
  the state the drain leaves. The wait itself changes nothing in the sink.\<close>

definition drain_eos_time :: "GstBaseAudioSink \<Rightarrow> GstRingBuffer \<Rightarrow> GstClockTime" where
  "drain_eos_time sink rb =
     (let time = gst_util_uint64_scale_int (next_sample sink) GST_SECOND (rate (spec rb))
      in if time > base_time sink then time - base_time sink else 0)"

definition gst_base_audio_sink_drain :: "GstBaseAudioSink \<Rightarrow> GstBaseAudioSink" where
  "gst_base_audio_sink_drain sink =
     (case ringbuffer sink of
        None \<Rightarrow> sink
      | Some rb \<Rightarrow>
          if rate (spec rb) = 0 then sink
          else
            let rb1 = (if gst_ring_buffer_is_acquired (Some rb)
                       then gst_ring_buffer_start rb else rb);
                sink1 = sink\<lparr>ringbuffer := Some rb1\<rparr>
            in if next_sample sink1 \<noteq> - 1 then sink1\<lparr>next_sample := - 1\<rparr> else sink1)"

text \<open>\<open>gst_base_audio_sink_event\<close> always returns \<open>TRUE\<close>; the model returns the sink
  it leaves.\<close>

definition gst_base_audio_sink_event ::
  "GstEventType \<Rightarrow> GstBaseAudioSink \<Rightarrow> GstBaseAudioSink" where
  "gst_base_audio_sink_event ev sink =
     (case ev of
        GST_EVENT_FLUSH_START \<Rightarrow>
          (case ringbuffer sink of
             None \<Rightarrow> sink
           | Some rb \<Rightarrow> sink\<lparr>ringbuffer := Some (gst_ring_buffer_set_flushing rb True)\<rparr>)
      | GST_EVENT_FLUSH_STOP \<Rightarrow>
          (let sink1 = sink\<lparr>avg_skew := - 1\<rparr>;
               sink2 = sink1\<lparr>next_sample := - 1\<rparr>
           in case ringbuffer sink2 of
                None \<Rightarrow> sink2
              | Some rb \<Rightarrow> sink2\<lparr>ringbuffer := Some (gst_ring_buffer_set_flushing rb False)\<rparr>)
      | GST_EVENT_EOS \<Rightarrow> gst_base_audio_sink_drain sink
      | GST_EVENT_NEWSEGMENT \<Rightarrow> sink
      | GST_EVENT_OTHER \<Rightarrow> sink)"

section \<open>The provided clock\<close>

text \<open>\<open>gst_base_audio_sink_get_time\<close>, the time function of the provided clock.\<close>

definition gst_base_audio_sink_get_time :: "GstBaseAudioSink \<Rightarrow> GstClockTime" where
  "gst_base_audio_sink_get_time sink =
     (case ringbuffer sink of
        None \<Rightarrow> GST_CLOCK_TIME_NONE
      | Some rb \<Rightarrow>
          if rate (spec rb) = 0 then GST_CLOCK_TIME_NONE
          else
            let samples = gst_ring_buffer_samples_done rb;
                dly = guint_to_64 (gst_ring_buffer_delay rb);
                samples1 = (if samples \<ge> dly then samples - dly else 0);
                result = gst_util_uint64_scale_int samples1 GST_SECOND (rate (spec rb))
            in result + us_latency sink)"

section \<open>The fallback sample position\<close>

text \<open>\<open>gst_base_audio_sink_get_offset\<close>. \<open>writeseg\<close>, \<open>segdone\<close>, \<open>sps\<close> and \<open>diff\<close>
  are \<open>gint\<close>: the quotient \<open>sample / sps\<close> is formed in 64 bits and cut to 32, and
  \<open>(segdone + 1) * sps\<close> is a 32-bit product that is widened afterwards.\<close>

definition gst_base_audio_sink_get_offset :: "GstBaseAudioSink \<Rightarrow> fault + guint64" where
  "gst_base_audio_sink_get_offset sink =
     (case ringbuffer sink of
        None \<Rightarrow> Inl NULL_POINTER
      | Some rb \<Rightarrow>
          (let sample = (if next_sample sink = - 1 then 0 else next_sample sink);
               sps = samples_per_seg rb
           in case guint64_div sample (gint_to_64 sps) of
                Inl e \<Rightarrow> Inl e
              | Inr q \<Rightarrow>
                  (let writeseg = to_gint q;
                       segdone1 = segdone rb - segbase rb;
                       diff = writeseg - segdone1
                   in if diff <s 0 then Inr (gint_to_64 ((segdone1 + 1) * sps))
                      else Inr sample)))"

section \<open>The slaving engine\<close>

definition clock_convert_external ::
  "GstClockTime \<Rightarrow> GstClockTime \<Rightarrow> GstClockTime \<Rightarrow> GstClockTime \<Rightarrow> GstClockTime
     \<Rightarrow> GstClockTime \<Rightarrow> GstClockTime" where
  "clock_convert_external external cint cext cnum cdenom us_lat =
     (let external1 =
            (if external \<ge> cext
             then gst_util_uint64_scale (external - cext) cdenom cnum + cint
             else
               let e = gst_util_uint64_scale (cext - external) cdenom cnum
               in if cint > e then cint - e else 0)
      in if external1 > us_lat then external1 - us_lat else 0)"

definition gst_base_audio_sink_resample_slaving ::
  "GstBaseAudioSink \<Rightarrow> GstClockTime \<Rightarrow> GstClockTime \<Rightarrow> GstClockTime \<times> GstClockTime" where
  "gst_base_audio_sink_resample_slaving sink render_start render_stop =
     (let cal = provided_clock sink;
          num = (if crate_num cal = 0 then 1 else crate_num cal);
          denom = (if crate_num cal = 0 then 1 else crate_denom cal)
      in (clock_convert_external render_start (cinternal cal) (cexternal cal) num denom
            (us_latency sink),
          clock_convert_external render_stop (cinternal cal) (cexternal cal) num denom
            (us_latency sink)))"

definition gst_base_audio_sink_none_slaving ::
  "GstBaseAudioSink \<Rightarrow> GstClockTime \<Rightarrow> GstClockTime \<Rightarrow> GstClockTime \<times> GstClockTime" where
  "gst_base_audio_sink_none_slaving sink render_start render_stop =
     (let cal = provided_clock sink
      in (clock_convert_external render_start (cinternal cal) (cexternal cal)
            (crate_num cal) (crate_denom cal) (us_latency sink),
          clock_convert_external render_stop (cinternal cal) (cexternal cal)
            (crate_num cal) (crate_denom cal) (us_latency sink)))"

text \<open>\<open>gst_base_audio_sink_skew_slaving\<close>. \<open>clock_time\<close> is what
  \<open>gst_clock_get_time\<close> answers for the pipeline clock and \<open>internal_time\<close> what
  \<open>gst_clock_get_internal_time\<close> answers for the provided clock. The local
  \<open>cexternal\<close> the code converts with is the one it has just stored in the clock.
  The two conditional assignments (\<open>avg_skew\<close> on the first observation,
  \<open>next_sample = -1\<close> on a resync) are written as updates with a conditional value.\<close>

definition gst_base_audio_sink_skew_slaving ::
  "GstBaseAudioSink \<Rightarrow> GstClockTime \<Rightarrow> GstClockTime \<Rightarrow> GstClockTime \<Rightarrow> GstClockTime
     \<Rightarrow> fault + (GstBaseAudioSink \<times> GstClockTime \<times> GstClockTime)" where
  "gst_base_audio_sink_skew_slaving sink clock_time internal_time render_start render_stop =
     (case ringbuffer sink of
        None \<Rightarrow> Inl NULL_POINTER
      | Some rb \<Rightarrow>
          let cal = provided_clock sink;
              etime = (if clock_time > cexternal cal then clock_time - cexternal cal else 0);
              itime = (if internal_time > cinternal cal then internal_time - cinternal cal else 0);
              skew = itime - etime;
              sink1 = sink\<lparr>avg_skew := (if avg_skew sink = - 1 then skew
                                           else c_sdiv (31 * avg_skew sink + skew) 32)\<rparr>;
              segtime = latency_time (spec rb) * 1000;
              segtime2 = c_sdiv segtime 2
          in if segtime2 <s avg_skew sink1 then
               (let cext = (if cexternal cal > segtime then cexternal cal - segtime else 0);
                    sink2 = sink1\<lparr>avg_skew := avg_skew sink1 - segtime\<rparr>
                in case gint_div (segsize (spec rb)) (bytes_per_sample (spec rb)) of
                     Inl e \<Rightarrow> Inl e
                   | Inr segsamples \<Rightarrow>
                       let la = last_align sink2;
                           sink3 = sink2\<lparr>next_sample :=
                                           (if la <s 0 \<or> gint_to_64 segsamples <s la
                                            then - 1 else next_sample sink2)\<rparr>;
                           sink4 = sink3\<lparr>provided_clock := cal\<lparr>cexternal := cext\<rparr>\<rparr>
                       in Inr (sink4,
                            clock_convert_external render_start (cinternal cal) cext
                              (crate_num cal) (crate_denom cal) (us_latency sink4),
                            clock_convert_external render_stop (cinternal cal) cext
                              (crate_num cal) (crate_denom cal) (us_latency sink4)))
             else if avg_skew sink1 <s - segtime2 then
               (let cext = cexternal cal + segtime;
                    sink2 = sink1\<lparr>avg_skew := avg_skew sink1 + segtime\<rparr>
                in case gint_div (segsize (spec rb)) (bytes_per_sample (spec rb)) of
                     Inl e \<Rightarrow> Inl e
                   | Inr segsamples \<Rightarrow>
                       let la = last_align sink2;
                           sink3 = sink2\<lparr>next_sample :=
                                           (if 0 <s la \<or> gint_to_64 segsamples <s - la
                                            then - 1 else next_sample sink2)\<rparr>;
                           sink4 = sink3\<lparr>provided_clock := cal\<lparr>cexternal := cext\<rparr>\<rparr>
                       in Inr (sink4,
                            clock_convert_external render_start (cinternal cal) cext
                              (crate_num cal) (crate_denom cal) (us_latency sink4),
                            clock_convert_external render_stop (cinternal cal) cext
                              (crate_num cal) (crate_denom cal) (us_latency sink4)))
             else
               Inr (sink1,
                    clock_convert_external render_start (cinternal cal) (cexternal cal)
                      (crate_num cal) (crate_denom cal) (us_latency sink1),
                    clock_convert_external render_stop (cinternal cal) (cexternal cal)
                      (crate_num cal) (crate_denom cal) (us_latency sink1)))"

text \<open>\<open>gst_base_audio_sink_handle_slaving\<close>: an unknown method only logs a warning
  and leaves the two times as they were.\<close>

definition gst_base_audio_sink_handle_slaving ::
  "GstBaseAudioSink \<Rightarrow> GstClockTime \<Rightarrow> GstClockTime \<Rightarrow> GstClockTime \<Rightarrow> GstClockTime
     \<Rightarrow> fault + (GstBaseAudioSink \<times> GstClockTime \<times> GstClockTime)" where
  "gst_base_audio_sink_handle_slaving sink clock_time internal_time render_start render_stop =
     (case slave_method sink of
        GST_BASE_AUDIO_SINK_SLAVE_RESAMPLE \<Rightarrow>
          Inr (sink, gst_base_audio_sink_resample_slaving sink render_start render_stop)
      | GST_BASE_AUDIO_SINK_SLAVE_SKEW \<Rightarrow>
          gst_base_audio_sink_skew_slaving sink clock_time internal_time render_start render_stop
      | GST_BASE_AUDIO_SINK_SLAVE_NONE \<Rightarrow>
          Inr (sink, gst_base_audio_sink_none_slaving sink render_start render_stop)
      | SLAVE_METHOD_UNKNOWN \<Rightarrow> Inr (sink, render_start, render_stop))"

section \<open>The renderer\<close>

datatype GstFlowReturn =
  GST_FLOW_OK
| GST_FLOW_NOT_NEGOTIATED
| GST_FLOW_ERROR
| GST_FLOW_WRONG_STATE

text \<open>What \<open>render\<close> posts on the bus: the two element errors and the warning
  "Compensating for audio synchronisation problems" with the drift it reports.\<close>

datatype message =
  ERROR_STREAM_FORMAT
| ERROR_STREAM_WRONG_TYPE
| WARNING_CORE_CLOCK GstClockTime

text \<open>The buffer: \<open>GST_BUFFER_SIZE\<close>, \<open>GST_BUFFER_TIMESTAMP\<close> and the \<open>DISCONT\<close>
  flag. \<open>data\<close> is kept as the byte offset into \<open>GST_BUFFER_DATA\<close>.\<close>

record GstBuffer =
  buf_size :: guint
  buf_timestamp :: GstClockTime
  buf_discont :: bool

datatype element_clock = NO_CLOCK | PROVIDED_CLOCK | OTHER_CLOCK

text \<open>One answer of the ring buffer to \<open>gst_ring_buffer_commit_full\<close>: the samples
  written, the sample position and the accumulator it leaves, and what
  \<open>gst_base_sink_wait_preroll\<close> answers if the render loop calls it after this commit
  (\<open>True\<close> for \<open>GST_FLOW_OK\<close>).\<close>

record commit_answer =
  written :: guint
  sample_after :: guint64
  accum_after :: gint
  preroll_ok :: bool

text \<open>What the base sink, the segment and the clocks answer during one call of
  \<open>render\<close>: \<open>gst_segment_clip\<close> and \<open>gst_segment_to_running_time\<close> on the
  current segment, the sign test \<open>segment.rate >= 0.0\<close>, \<open>segment.stop\<close>, the element's
  clock, \<open>bsink->sync\<close>, \<open>gst_base_sink_get_latency\<close>, the two clock readings skew
  slaving takes, and the answers of the ring buffer to the commits, in order.\<close>

record render_env =
  segment_clip :: "GstClockTime \<Rightarrow> GstClockTime \<Rightarrow> (gint64 \<times> gint64) option"
  segment_to_running_time :: "GstClockTime \<Rightarrow> GstClockTime"
  segment_rate_nonneg :: bool
  segment_stop :: gint64
  clock :: element_clock
  sync :: bool
  latency :: GstClockTime
  clock_time :: GstClockTime
  internal_time :: GstClockTime
  commit_answers :: "commit_answer list"

text \<open>The commit loop (the \<open>do ... while (TRUE)\<close> of \<open>render\<close>). It returns the ring
  buffer with the commits logged and, when the loop is left through \<open>break\<close>, the
  final \<open>sample_offset\<close> and \<open>align_next\<close>; \<open>None\<close> stands for \<open>goto stopping\<close>.\<close>

fun commit_loop ::
  "commit_answer list \<Rightarrow> gint \<Rightarrow> GstRingBuffer \<Rightarrow> guint64 \<Rightarrow> guint64 \<Rightarrow> guint \<Rightarrow> gint
     \<Rightarrow> gint \<Rightarrow> bool \<Rightarrow> fault + (GstRingBuffer \<times> (guint64 \<times> bool) option)" where
  "commit_loop [] bps rb sample_offset data samples out_samples accum align_next = Inl BLOCKED"
| "commit_loop (a # answers) bps rb sample_offset data samples out_samples accum align_next =
     (let rb1 = rb\<lparr>commits := commits rb @
                   [\<lparr>commit_sample = sample_offset, commit_data = data,
                     commit_in_samples = samples, commit_out_samples = out_samples,
                     commit_accum = accum\<rparr>]\<rparr>
      in if written a = samples then Inr (rb1, Some (sample_after a, align_next))
         else if \<not> preroll_ok a then Inr (rb1, None)
         else commit_loop answers bps rb1 (sample_after a)
                (data + guint_to_64 (written a * bps)) (samples - written a) out_samples
                (accum_after a) False)"

text \<open>From the label \<open>no_sync\<close> to the end of \<open>render\<close>.\<close>

definition render_commit ::
  "render_env \<Rightarrow> GstBaseAudioSink \<Rightarrow> GstRingBuffer \<Rightarrow> guint64 \<Rightarrow> guint64 \<Rightarrow> guint64
     \<Rightarrow> guint \<Rightarrow> gint \<Rightarrow> GstClockTime \<Rightarrow> message list
     \<Rightarrow> fault + (GstFlowReturn \<times> GstBaseAudioSink \<times> message list)" where
  "render_commit env sink ringbuf render_start render_stop data samples out_samples stop msgs =
     (let sample_offset = (if segment_rate_nonneg env then render_start else render_stop)
      in case commit_loop (commit_answers env) (bytes_per_sample (spec ringbuf)) ringbuf
                sample_offset data samples out_samples 0 True of
           Inl e \<Rightarrow> Inl e
         | Inr (rb1, None) \<Rightarrow>
             Inr (GST_FLOW_WRONG_STATE, sink\<lparr>ringbuffer := Some rb1\<rparr>, msgs)
         | Inr (rb1, Some (sample_offset1, align_next)) \<Rightarrow>
             (let sink1 = sink\<lparr>next_sample := (if align_next then sample_offset1 else - 1)\<rparr>;
                  rb2 = (if stop \<noteq> GST_CLOCK_TIME_NONE \<and> stop \<ge> segment_stop env
                         then gst_ring_buffer_start rb1 else rb1)
              in Inr (GST_FLOW_OK, sink1\<lparr>ringbuffer := Some rb2\<rparr>, msgs)))"



text \<open>The alignment of \<open>render\<close>, from the \<open>DISCONT\<close> test to the label \<open>no_align\<close>:
  the sink it leaves, the aligned \<open>render_start\<close> and \<open>render_stop\<close>, and the warning
  it posts.\<close>

definition render_align ::
  "GstBaseAudioSink \<Rightarrow> gint \<Rightarrow> bool \<Rightarrow> bool \<Rightarrow> bool \<Rightarrow> guint64 \<Rightarrow> guint64
     \<Rightarrow> GstBaseAudioSink \<times> guint64 \<times> guint64 \<times> message list" where
  "render_align sink r discont forward slaved render_start render_stop =
     (if discont then (sink, render_start, render_stop, [])
      else if next_sample sink = - 1 then (sink, render_start, render_stop, [])
      else
        let sample_offset = (if forward then render_start else render_stop);
            diff = (if sample_offset \<ge> next_sample sink
                    then sample_offset - next_sample sink
                    else next_sample sink - sample_offset);
            near = (diff <s gint_to_64 (c_sdiv r DIFF_TOLERANCE));
            align = (if near then next_sample sink - sample_offset else 0);
            msgs = (if near then []
                    else [WARNING_CORE_CLOCK (gst_util_uint64_scale_int diff GST_SECOND r)]);
            sink1 = sink\<lparr>last_align := align\<rparr>;
            render_start1 = render_start + align
        in if slaved \<and> slave_method sink1 = GST_BASE_AUDIO_SINK_SLAVE_RESAMPLE
           then (sink1, render_start1, render_stop, msgs)
           else (sink1, render_start1, render_stop + align, msgs))"

text \<open>The clipping of \<open>render\<close> against the segment: the samples, the data offset, the
  start time and the stop time after the two \<open>diff > 0\<close> blocks.\<close>

definition render_clip ::
  "gint \<Rightarrow> gint \<Rightarrow> gint64 \<Rightarrow> gint64 \<Rightarrow> guint \<Rightarrow> guint64 \<Rightarrow> GstClockTime \<Rightarrow> GstClockTime
     \<Rightarrow> guint \<times> guint64 \<times> GstClockTime \<times> GstClockTime" where
  "render_clip r bps ctime cstop samples data time stop =
     (let diff = ctime - time;
          samples1 = (if 0 <s diff
                      then ucast (guint_to_64 samples - gst_util_uint64_scale_int diff r GST_SECOND)
                      else samples);
          data1 = (if 0 <s diff
                   then data + gst_util_uint64_scale_int diff r GST_SECOND * gint_to_64 bps
                   else data);
          time1 = (if 0 <s diff then ctime else time);
          diff2 = stop - cstop;
          samples2 = (if 0 <s diff2
                      then ucast (guint_to_64 samples1 - gst_util_uint64_scale_int diff2 r GST_SECOND)
                      else samples1);
          stop1 = (if 0 <s diff2 then cstop else stop)
      in (samples2, data1, time1, stop1))"

text \<open>The synchronised position of \<open>render\<close>: running time, base time, latency, the
  slaving and the conversion to samples. \<open>slaved\<close> is \<open>clock != sink->provided_clock\<close>.\<close>

definition render_sync_position ::
  "render_env \<Rightarrow> GstBaseAudioSink \<Rightarrow> gint \<Rightarrow> GstClockTime \<Rightarrow> GstClockTime
     \<Rightarrow> fault + (GstBaseAudioSink \<times> guint64 \<times> guint64)" where
  "render_sync_position env sink r time stop =
     (let render_start = segment_to_running_time env time + base_time sink + latency env;
          render_stop = segment_to_running_time env stop + base_time sink + latency env;
          slaved = (clock env \<noteq> PROVIDED_CLOCK)
      in case (if slaved
               then gst_base_audio_sink_handle_slaving sink (clock_time env) (internal_time env)
                      render_start render_stop
               else Inr (sink, gst_base_audio_sink_none_slaving sink render_start render_stop)) of
           Inl e \<Rightarrow> Inl e
         | Inr (sink1, srender_start, srender_stop) \<Rightarrow>
             Inr (sink1, gst_util_uint64_scale_int srender_start r GST_SECOND,
                  gst_util_uint64_scale_int srender_stop r GST_SECOND))"

text \<open>\<open>render\<close> for a buffer with a valid timestamp, after the two entry checks. On
  the path without sync \<open>out_samples\<close> still holds the sample count from before the
  clipping, as in the source, where it is assigned once before the clip and again only at
  the label \<open>no_align\<close>.\<close>

definition render_timed ::
  "render_env \<Rightarrow> GstBuffer \<Rightarrow> GstBaseAudioSink \<Rightarrow> GstRingBuffer \<Rightarrow> guint \<Rightarrow> GstClockTime
     \<Rightarrow> GstClockTime \<Rightarrow> fault + (GstFlowReturn \<times> GstBaseAudioSink \<times> message list)" where
  "render_timed env buf sink ringbuf samples0 time0 stop0 =
     (case segment_clip env time0 stop0 of
        None \<Rightarrow> Inr (GST_FLOW_OK, sink, [])
      | Some (ctime, cstop) \<Rightarrow>
          (let r = rate (spec ringbuf);
               (samples, data, time, stop) =
                 render_clip r (bytes_per_sample (spec ringbuf)) ctime cstop samples0 0 time0 stop0;
               sync1 = (if clock env \<noteq> NO_CLOCK then sync env else False)
           in if \<not> sync1 then
                (case gst_base_audio_sink_get_offset sink of
                   Inl e \<Rightarrow> Inl e
                 | Inr render_start \<Rightarrow>
                     render_commit env sink ringbuf render_start
                       (render_start + guint_to_64 samples) data samples samples0 stop [])
              else
                (case render_sync_position env sink r time stop of
                   Inl e \<Rightarrow> Inl e
                 | Inr (sink1, render_start, render_stop) \<Rightarrow>
                     (let (sink2, render_start1, render_stop1, msgs) =
                            render_align sink1 r (buf_discont buf) (segment_rate_nonneg env)
                              (clock env \<noteq> PROVIDED_CLOCK) render_start render_stop
                      in render_commit env sink2 ringbuf render_start1 render_stop1 data samples
                           (to_gint (render_stop1 - render_start1)) stop msgs))))"

text \<open>\<open>gst_base_audio_sink_render\<close>.\<close>

definition gst_base_audio_sink_render ::
  "render_env \<Rightarrow> GstBuffer \<Rightarrow> GstBaseAudioSink
     \<Rightarrow> fault + (GstFlowReturn \<times> GstBaseAudioSink \<times> message list)" where
  "gst_base_audio_sink_render env buf sink =
     (if \<not> gst_ring_buffer_is_acquired (ringbuffer sink)
      then Inr (GST_FLOW_NOT_NEGOTIATED, sink, [ERROR_STREAM_FORMAT])
      else
        case ringbuffer sink of
          None \<Rightarrow> Inl NULL_POINTER
        | Some ringbuf \<Rightarrow>
            (let bps = bytes_per_sample (spec ringbuf);
                 size = buf_size buf
             in case guint_mod size bps of
                  Inl e \<Rightarrow> Inl e
                | Inr rest \<Rightarrow>
                    if rest \<noteq> 0 then Inr (GST_FLOW_ERROR, sink, [ERROR_STREAM_WRONG_TYPE])
                    else
                      (let samples = size div bps;
                           time = buf_timestamp buf;
                           stop = time + gst_util_uint64_scale_int (guint_to_64 samples)
                                           GST_SECOND (rate (spec ringbuf))
                       in if time = GST_CLOCK_TIME_NONE then
                            (case gst_base_audio_sink_get_offset sink of
                               Inl e \<Rightarrow> Inl e
                             | Inr render_start \<Rightarrow>
                                 render_commit env sink ringbuf render_start
                                   (render_start + guint_to_64 samples) 0 samples samples stop [])
                          else render_timed env buf sink ringbuf samples time stop)))"

section \<open>Example states\<close>

text \<open>A sink playing 44.1 kHz audio with 4-byte frames and 10 ms segments (441 samples,
  1764 bytes), one second after the start, with the identity calibration.\<close>

definition ex_ringbuffer :: GstRingBuffer where
  "ex_ringbuffer =
     \<lparr>acquired = True, flushing = False, started = True,
      spec = \<lparr>rate = 44100, bytes_per_sample = 4, segsize = 1764, latency_time = 10000\<rparr>,
      samples_per_seg = 441, segdone = 100, segbase = 0,
      samples_done = 44100, delay = 0, commits = []\<rparr>"

definition ex_sink :: GstBaseAudioSink where
  "ex_sink =
     \<lparr>ringbuffer = Some ex_ringbuffer, next_sample = - 1, us_latency = 0,
      slave_method = GST_BASE_AUDIO_SINK_SLAVE_SKEW, avg_skew = - 1, last_align = 0,
      provided_clock = \<lparr>cinternal = 0, cexternal = 0, crate_num = 1, crate_denom = 1\<rparr>,
      base_time = 0\<rparr>"

text \<open>The same sink after the ring buffer has been released (or after an acquire that
  failed in \<open>setcaps\<close>): the ring buffer is there, its spec still holds the rate, and it
  is not acquired.\<close>

definition ex_released :: GstBaseAudioSink where
  "ex_released = ex_sink\<lparr>ringbuffer := Some (ex_ringbuffer\<lparr>acquired := False\<rparr>)\<rparr>"

text \<open>The same sink at a later read of the clock: the device reports one more segment
  (441 samples) as queued while \<open>samples_done\<close> has not advanced yet.\<close>

definition ex_queued :: GstBaseAudioSink where
  "ex_queued = ex_sink\<lparr>ringbuffer := Some (ex_ringbuffer\<lparr>delay := 441\<rparr>)\<rparr>"

text \<open>The same sink one segment later.\<close>

definition ex_later :: GstBaseAudioSink where
  "ex_later = ex_sink\<lparr>ringbuffer := Some (ex_ringbuffer\<lparr>samples_done := 44541, delay := 441\<rparr>)\<rparr>"

text \<open>The same sink after 9739154 segments (27 hours of playback), with no
  \<open>next_sample\<close>.\<close>

definition ex_long_run :: GstBaseAudioSink where
  "ex_long_run = ex_sink\<lparr>ringbuffer := Some (ex_ringbuffer\<lparr>segdone := 9739154\<rparr>)\<rparr>"

text \<open>The same sink with a calibration whose \<open>rate_num\<close> is 0.\<close>

definition ex_zero_rate :: GstBaseAudioSink where
  "ex_zero_rate =
     ex_sink\<lparr>provided_clock :=
               \<lparr>cinternal = 0, cexternal = 0, crate_num = 0, crate_denom = 1\<rparr>\<rparr>"


text \<open>One call of \<open>render\<close>: a segment from 0 to 10 s played forwards, a pipeline clock
  that is not the provided one, sync on, no latency, both clocks at 1 s, and a ring
  buffer that takes the 441 samples in one commit. The buffer holds 441 samples stamped
  1 s. The sink expects the next sample at 44110 (ten samples after the position the
  timestamp gives) or, for the drifted stream, at 100; its last alignment was 5.\<close>

definition ex_env :: render_env where
  "ex_env =
     \<lparr>segment_clip =
        (\<lambda>t s. if 10000000000 \<le> t then None
               else Some (t, if 10000000000 < s then 10000000000 else s)),
      segment_to_running_time = (\<lambda>t. t),
      segment_rate_nonneg = True,
      segment_stop = 10000000000,
      clock = OTHER_CLOCK,
      sync = True,
      latency = 0,
      clock_time = 1000000000,
      internal_time = 1000000000,
      commit_answers =
        [\<lparr>written = 441, sample_after = 44551, accum_after = 0, preroll_ok = True\<rparr>]\<rparr>"

definition ex_buf :: GstBuffer where
  "ex_buf = \<lparr>buf_size = 1764, buf_timestamp = 1000000000, buf_discont = False\<rparr>"

definition ex_playing :: GstBaseAudioSink where
  "ex_playing = ex_sink\<lparr>next_sample := 44110, last_align := 5\<rparr>"

definition ex_drifted :: GstBaseAudioSink where
  "ex_drifted = ex_sink\<lparr>next_sample := 100, last_align := 5\<rparr>"

text \<open>The same call with other answers of the ring buffer: a commit that ends at 44541;
  a commit interrupted after 100 samples whose preroll wait is cancelled; a commit
  interrupted after 100 samples, a successful wait, and a second commit that takes the
  remaining 341 samples.\<close>

definition ex_env_drifted :: render_env where
  "ex_env_drifted =
     ex_env\<lparr>commit_answers :=
       [\<lparr>written = 441, sample_after = 44541, accum_after = 0, preroll_ok = True\<rparr>]\<rparr>"

definition ex_env_cancel :: render_env where
  "ex_env_cancel =
     ex_env\<lparr>commit_answers :=
       [\<lparr>written = 100, sample_after = 44210, accum_after = 0, preroll_ok = False\<rparr>]\<rparr>"

definition ex_env_resume :: render_env where
  "ex_env_resume =
     ex_env\<lparr>commit_answers :=
       [\<lparr>written = 100, sample_after = 44210, accum_after = 0, preroll_ok = True\<rparr>,
        \<lparr>written = 341, sample_after = 44551, accum_after = 0, preroll_ok = True\<rparr>]\<rparr>"







section \<open>Facts about the machine types and the scaling helpers\<close>

lemma unat_max64: "unat (- 1 :: 64 word) = 18446744073709551615"
  by (simp add: unsigned_minus_1_eq_mask mask_eq_exp_minus_1)

lemma unat_guint_to_64: "unat (guint_to_64 x) = unat x"
proof -
  have "unat x < 2 ^ 32"
    using unsigned_less [of x] by simp
  then have "unat x < 2 ^ 64"
    by simp
  then show ?thesis
    by (simp add: guint_to_64_def unsigned_ucast_eq take_bit_nat_eq_self)
qed

lemma sint_gint_to_64: "sint (gint_to_64 x) = sint x"
  by (simp add: gint_to_64_def sint_up_scast is_up)

lemma unat_scale_nat: "unat (scale_nat v n d) = min (v * n div d) 18446744073709551615"
  by (simp add: scale_nat_def G_MAXUINT64_def unat_of_nat min_def unat_max64)

lemma scale_nat_mono: "v \<le> w \<Longrightarrow> scale_nat v n d \<le> scale_nat w n d"
proof -
  assume "v \<le> w"
  then have "v * n div d \<le> w * n div d"
    by (simp add: div_le_mono)
  then show ?thesis
    by (simp add: word_le_nat_alt unat_scale_nat min_def)
qed

lemma scale_int_mono:
  assumes "v \<le> w"
  shows "gst_util_uint64_scale_int v n d \<le> gst_util_uint64_scale_int w n d"
proof -
  from assms have "unat v \<le> unat w"
    by (simp add: word_le_nat_alt)
  then have "scale_nat (unat v) (unat n) (unat d) \<le> scale_nat (unat w) (unat n) (unat d)"
    by (rule scale_nat_mono)
  then show ?thesis
    by (simp add: gst_util_uint64_scale_int_def)
qed

lemma sat_sub_unat: "unat (if (a :: 64 word) > b then a - b else 0) = unat a - unat b"
  by (auto simp add: word_less_nat_alt unat_sub word_le_nat_alt)

lemma unat_GST_SECOND: "unat GST_SECOND = 1000000000"
  by (simp add: GST_SECOND_def)

lemma GST_SECOND_not_negative: "\<not> GST_SECOND <s 0"
  by (simp add: GST_SECOND_def word_sless_alt)

text \<open>Signed 32-bit arithmetic without overflow, and the two casts of
  \<open>gst_base_audio_sink_get_offset\<close> on values that fit.\<close>

lemma sint32_diff:
  "- 2147483648 \<le> sint a - sint b \<Longrightarrow> sint a - sint b < 2147483648 \<Longrightarrow>
     sint (a - b :: 32 word) = sint a - sint b"
  by (simp add: sint_word_ariths signed_take_bit_int_eq_self)

lemma sint32_add:
  "- 2147483648 \<le> sint a + sint b \<Longrightarrow> sint a + sint b < 2147483648 \<Longrightarrow>
     sint (a + b :: 32 word) = sint a + sint b"
  by (simp add: sint_word_ariths signed_take_bit_int_eq_self)

lemma sint32_mult:
  "- 2147483648 \<le> sint a * sint b \<Longrightarrow> sint a * sint b < 2147483648 \<Longrightarrow>
     sint (a * b :: 32 word) = sint a * sint b"
  by (simp add: sint_word_ariths signed_take_bit_int_eq_self)

lemma sint_to_gint:
  assumes "unat x < 2147483648"
  shows "sint (to_gint x) = int (unat x)"
proof -
  from assms have "int (unat x) < int 2147483648"
    by (simp only: of_nat_less_iff)
  then have "uint x < 2 ^ 31"
    by simp
  moreover have "- (2 ^ 31) \<le> uint x"
    by (rule order_trans [OF _ uint_nonnegative]) simp
  ultimately have "signed_take_bit 31 (uint x) = uint x"
    by (rule signed_take_bit_int_eq_self [rotated])
  moreover have "sint (to_gint x) = signed_take_bit 31 (uint x)"
    by (simp add: to_gint_def signed_ucast_eq)
  ultimately show ?thesis
    by simp
qed

lemma uint_of_nonneg:
  fixes w :: "64 word"
  assumes "0 \<le> sint w"
  shows "uint w = sint w"
proof -
  have lt: "uint w < 2 ^ 64"
    using uint_lt2p [of w] by simp
  have "take_bit 64 (uint w) = uint w"
    using lt by (simp add: take_bit_int_eq_self)
  then have "sint w = uint w - 2 ^ 64 * of_bool (bit (uint w) 63)"
    by (simp add: sint_uint signed_take_bit_eq_take_bit_minus)
  with assms lt show ?thesis
    by (cases "bit (uint w) 63") simp_all
qed

lemma unat_gint_to_64:
  assumes "0 \<le> sint x"
  shows "unat (gint_to_64 x) = nat (sint x)"
proof -
  from assms have "0 \<le> sint (gint_to_64 x)"
    by (simp add: sint_gint_to_64)
  then have "uint (gint_to_64 x) = sint (gint_to_64 x)"
    by (rule uint_of_nonneg)
  then have e: "uint (gint_to_64 x) = sint x"
    by (simp only: sint_gint_to_64)
  have "unat (gint_to_64 x) = nat (uint (gint_to_64 x))"
    by simp
  then show ?thesis
    by (simp only: e)
qed

text \<open>What evaluates the model on a concrete state.\<close>

lemmas word_eval = word_less_nat_alt word_le_nat_alt word_sless_alt word_sle_eq unat_max64
  unat_guint_to_64 sint_gint_to_64

lemmas cast_defs = guint_to_64_def gint_to_64_def to_gint_def

lemmas example_defs = ex_ringbuffer_def ex_sink_def ex_released_def ex_queued_def ex_later_def
  ex_long_run_def ex_zero_rate_def

lemmas scale_defs = gst_util_uint64_scale_def gst_util_uint64_scale_int_def scale_nat_def
  G_MAXUINT64_def GST_SECOND_def GST_CLOCK_TIME_NONE_def

lemmas render_defs = gst_base_audio_sink_render_def render_timed_def render_clip_def
  render_sync_position_def render_align_def render_commit_def
  gst_base_audio_sink_handle_slaving_def gst_base_audio_sink_skew_slaving_def
  gst_base_audio_sink_none_slaving_def gst_base_audio_sink_resample_slaving_def
  clock_convert_external_def gst_ring_buffer_is_acquired_def gst_ring_buffer_start_def
  guint_mod_def gint_div_def c_sdiv_def signed_divide_int_def DIFF_TOLERANCE_def

lemmas render_example_defs = ex_env_def ex_env_drifted_def ex_env_cancel_def ex_env_resume_def
  ex_buf_def ex_playing_def ex_drifted_def ex_sink_def ex_ringbuffer_def ex_released_def


section \<open>Flush-stop\<close>

text \<open>
  Claim C8. Processing a flush-stop event sets \<open>avg_skew\<close> to none and \<open>next_sample\<close>
  to none and clears the flushing flag of the ring buffer (when the sink has one), and
  nothing else; processing a second flush-stop event leaves the state the first one
  produced.
\<close>

theorem flush_stop_idempotent:
  "avg_skew (gst_base_audio_sink_event GST_EVENT_FLUSH_STOP sink) = - 1
   \<and> next_sample (gst_base_audio_sink_event GST_EVENT_FLUSH_STOP sink) = - 1
   \<and> ringbuffer (gst_base_audio_sink_event GST_EVENT_FLUSH_STOP sink)
       = map_option (\<lambda>rb. rb\<lparr>flushing := False\<rparr>) (ringbuffer sink)
   \<and> gst_base_audio_sink_event GST_EVENT_FLUSH_STOP sink
       = sink\<lparr>avg_skew := - 1, next_sample := - 1,
              ringbuffer := map_option (\<lambda>rb. rb\<lparr>flushing := False\<rparr>) (ringbuffer sink)\<rparr>
   \<and> gst_base_audio_sink_event GST_EVENT_FLUSH_STOP
         (gst_base_audio_sink_event GST_EVENT_FLUSH_STOP sink)
       = gst_base_audio_sink_event GST_EVENT_FLUSH_STOP sink"
  by (cases "ringbuffer sink")
     (simp_all add: gst_base_audio_sink_event_def gst_ring_buffer_set_flushing_def Let_def)

section \<open>The clock conversion\<close>

text \<open>
  Claim C4 (amended). For all inputs with \<open>rnum > 0\<close>, in the unsigned 64-bit
  arithmetic of \<open>GstClockTime\<close>: when \<open>ext \<ge> ce\<close>, \<open>clock_convert_external\<close> forms
  \<open>(ext - ce) \<cdot> rden / rnum\<close>, capped at \<open>2^64 - 1\<close> by the scaling helper, and adds
  \<open>ci\<close> modulo \<open>2^64\<close>; this is \<open>(ext - ce) \<cdot> rden / rnum + ci\<close> whenever that value is
  below \<open>2^64\<close>. Otherwise it forms \<open>ci - (ce - ext) \<cdot> rden / rnum\<close> clamped at 0. In
  both cases \<open>us_lat\<close> is then subtracted, saturating at 0. The values are read as
  natural numbers, where the subtraction stops at 0.
\<close>

theorem clock_convert_external_spec:
  assumes "rnum \<noteq> 0"
  shows "unat (clock_convert_external ext ci ce rnum rden us_lat) =
     (let scaled = (\<lambda>d. min (d * unat rden div unat rnum) 18446744073709551615);
          raw = (if ce \<le> ext
                 then (scaled (unat ext - unat ce) + unat ci) mod 2 ^ 64
                 else unat ci - scaled (unat ce - unat ext))
      in raw - unat us_lat)
   \<and> ((ce \<le> ext \<longrightarrow> (unat ext - unat ce) * unat rden div unat rnum + unat ci < 2 ^ 64) \<longrightarrow>
        unat (clock_convert_external ext ci ce rnum rden us_lat) =
          (if ce \<le> ext
           then (unat ext - unat ce) * unat rden div unat rnum + unat ci
           else unat ci - (unat ce - unat ext) * unat rden div unat rnum) - unat us_lat)"
proof (cases "ce \<le> ext")
  case True
  have gen: "unat (clock_convert_external ext ci ce rnum rden us_lat) =
      (min ((unat ext - unat ce) * unat rden div unat rnum) 18446744073709551615 + unat ci)
        mod 2 ^ 64 - unat us_lat"
    using assms True
    by (simp add: clock_convert_external_def gst_util_uint64_scale_def sat_sub_unat Let_def
        unat_scale_nat unat_sub unat_word_ariths)
  have ex: "(unat ext - unat ce) * unat rden div unat rnum + unat ci < 2 ^ 64 \<Longrightarrow>
      (min ((unat ext - unat ce) * unat rden div unat rnum) 18446744073709551615 + unat ci)
        mod 2 ^ 64 = (unat ext - unat ce) * unat rden div unat rnum + unat ci"
    by simp
  from gen True have c1: "unat (clock_convert_external ext ci ce rnum rden us_lat) =
     (let scaled = (\<lambda>d. min (d * unat rden div unat rnum) 18446744073709551615);
          raw = (if ce \<le> ext
                 then (scaled (unat ext - unat ce) + unat ci) mod 2 ^ 64
                 else unat ci - scaled (unat ce - unat ext))
      in raw - unat us_lat)"
    by (simp add: Let_def)
  from True have c2: "(unat ext - unat ce) * unat rden div unat rnum + unat ci < 2 ^ 64 \<Longrightarrow>
        unat (clock_convert_external ext ci ce rnum rden us_lat) =
          (if ce \<le> ext
           then (unat ext - unat ce) * unat rden div unat rnum + unat ci
           else unat ci - (unat ce - unat ext) * unat rden div unat rnum) - unat us_lat"
    by (simp only: gen ex if_True)
  from c1 c2 True show ?thesis by blast
next
  case False
  then have lt: "ext \<le> ce" by simp
  have gen: "unat (clock_convert_external ext ci ce rnum rden us_lat) =
      unat ci - min ((unat ce - unat ext) * unat rden div unat rnum) 18446744073709551615
        - unat us_lat"
    using assms False lt
    by (simp add: clock_convert_external_def gst_util_uint64_scale_def sat_sub_unat Let_def
        unat_scale_nat unat_sub)
  have "unat ci \<le> 18446744073709551615"
    using unsigned_less [of ci, where 'a = nat] by simp
  then have ex: "unat ci - min ((unat ce - unat ext) * unat rden div unat rnum) 18446744073709551615
      = unat ci - (unat ce - unat ext) * unat rden div unat rnum"
    by (simp add: min_def)
  from gen False have c1: "unat (clock_convert_external ext ci ce rnum rden us_lat) =
     (let scaled = (\<lambda>d. min (d * unat rden div unat rnum) 18446744073709551615);
          raw = (if ce \<le> ext
                 then (scaled (unat ext - unat ce) + unat ci) mod 2 ^ 64
                 else unat ci - scaled (unat ce - unat ext))
      in raw - unat us_lat)"
    by (simp add: Let_def)
  from False have c2: "unat (clock_convert_external ext ci ce rnum rden us_lat) =
          (if ce \<le> ext
           then (unat ext - unat ce) * unat rden div unat rnum + unat ci
           else unat ci - (unat ce - unat ext) * unat rden div unat rnum) - unat us_lat"
    by (simp only: gen ex if_False)
  from c1 c2 show ?thesis by blast
qed

theorem clock_convert_external_spec_witness:
  "(3 :: 64 word) \<noteq> 0
   \<and> unat (clock_convert_external 5000000000 1000 2000 3 2 10) = 3333332990
   \<and> unat (clock_convert_external 2000 1000 5000 3 2 10) = 0
   \<and> (1 :: 64 word) \<noteq> 0
   \<and> unat (clock_convert_external 18446744073709551615 5 0 1 2 0) = 4"
proof -
  have h3: "(3 :: 64 word) \<noteq> 0" and h1: "(1 :: 64 word) \<noteq> 0"
    by simp_all
  have fits: "(2000 :: 64 word) \<le> 5000000000 \<longrightarrow>
      (unat (5000000000 :: 64 word) - unat (2000 :: 64 word)) * unat (2 :: 64 word)
        div unat (3 :: 64 word) + unat (1000 :: 64 word) < 2 ^ 64"
    by simp
  from clock_convert_external_spec [OF h3, where ext = 5000000000 and ci = 1000
      and ce = 2000 and rden = 2 and us_lat = 10, THEN conjunct2, THEN mp, OF fits]
  have r1: "unat (clock_convert_external 5000000000 1000 2000 3 2 10) = 3333332990"
    by (simp add: word_eval)
  have below: "(5000 :: 64 word) \<le> 2000 \<longrightarrow>
      (unat (2000 :: 64 word) - unat (5000 :: 64 word)) * unat (2 :: 64 word)
        div unat (3 :: 64 word) + unat (1000 :: 64 word) < 2 ^ 64"
    by simp
  from clock_convert_external_spec [OF h3, where ext = 2000 and ci = 1000
      and ce = 5000 and rden = 2 and us_lat = 10, THEN conjunct2, THEN mp, OF below]
  have r2: "unat (clock_convert_external 2000 1000 5000 3 2 10) = 0"
    by (simp add: word_eval)
  from clock_convert_external_spec [OF h1, where ext = 18446744073709551615 and ci = 5
      and ce = 0 and rden = 2 and us_lat = 0, THEN conjunct1]
  have r3: "unat (clock_convert_external 18446744073709551615 5 0 1 2 0) = 4"
    by (simp add: word_eval)
  from h3 h1 r1 r2 r3 show ?thesis by simp
qed

text \<open>The claim as first stated fails where 64 bits are exceeded: for
  \<open>ext = 2^64 - 1\<close>, \<open>ce = 0\<close>, \<open>rden / rnum = 2 / 1\<close>, \<open>ci = 5\<close> and \<open>us_lat = 0\<close> the
  scaled difference is capped at \<open>2^64 - 1\<close>, the sum with \<open>ci\<close> wraps, and the result is
  4, not \<open>(ext - ce) \<cdot> rden / rnum + ci\<close>.\<close>

theorem clock_convert_external_counterexample:
  "(1 :: 64 word) \<noteq> 0
   \<and> (0 :: 64 word) \<le> 18446744073709551615
   \<and> unat (clock_convert_external 18446744073709551615 5 0 1 2 0) = 4
   \<and> unat (clock_convert_external 18446744073709551615 5 0 1 2 0)
       \<noteq> (unat (18446744073709551615 :: 64 word) - unat (0 :: 64 word)) * unat (2 :: 64 word)
            div unat (1 :: 64 word) + unat (5 :: 64 word) - unat (0 :: 64 word)"
  by (simp add: clock_convert_external_def scale_defs word_eval Let_def)

section \<open>The time of the provided clock\<close>

lemma eff_min: "(if (s :: 64 word) \<ge> d then s - d else 0) = s - min s d"
  by (auto simp add: min_def)

lemma unat_eff: "unat ((s :: 64 word) - min s d) = unat s - unat d"
  by (auto simp add: min_def unat_sub word_le_nat_alt)

lemma get_time_Some:
  "ringbuffer sink = Some rb \<Longrightarrow> rate (spec rb) \<noteq> 0 \<Longrightarrow>
     gst_base_audio_sink_get_time sink =
       gst_util_uint64_scale_int
         (samples_done rb - min (samples_done rb) (guint_to_64 (delay rb)))
         GST_SECOND (rate (spec rb)) + us_latency sink"
  by (simp add: gst_base_audio_sink_get_time_def Let_def eff_min
      gst_ring_buffer_samples_done_def gst_ring_buffer_delay_def)

lemma get_time_nat:
  assumes rb: "ringbuffer sink = Some rb" and pos: "0 <s rate (spec rb)"
    and fit: "(unat (samples_done rb) - unat (delay rb)) * 1000000000 div unat (rate (spec rb))
               + unat (us_latency sink) < 18446744073709551615"
  shows "unat (gst_base_audio_sink_get_time sink) =
               (unat (samples_done rb) - unat (delay rb)) * 1000000000 div unat (rate (spec rb))
                 + unat (us_latency sink)"
proof -
  from pos have nz: "rate (spec rb) \<noteq> 0" and nle: "\<not> rate (spec rb) \<le>s 0"
    by (auto simp add: word_sless_alt word_sle_eq)
  let ?v = "(unat (samples_done rb) - unat (delay rb)) * 1000000000 div unat (rate (spec rb))"
  have sc: "unat (gst_util_uint64_scale_int
         (samples_done rb - min (samples_done rb) (guint_to_64 (delay rb)))
         GST_SECOND (rate (spec rb))) = ?v"
    using fit nle
    by (simp add: gst_util_uint64_scale_int_def GST_SECOND_not_negative unat_scale_nat unat_eff
        unat_guint_to_64 unat_GST_SECOND)
  show ?thesis
    using fit sc
    by (simp add: get_time_Some [OF rb nz] unat_word_ariths)
qed

text \<open>
  Claim C3 (amended). The time function of the provided clock returns "no value" when
  the sink has no ring buffer or the rate of the ring buffer is 0; whether the ring
  buffer is acquired is not looked at. Otherwise it returns
  \<open>samples_done - min(samples_done, delay)\<close> scaled to nanoseconds at the configured
  rate, plus \<open>us_latency\<close>, in 64-bit arithmetic. For a positive rate, and as long as
  that sum stays below \<open>2^64 - 1\<close>, the result is a proper time and equals
  \<open>(samples_done - delay) \<cdot> 10^9 div rate + us_latency\<close>, the subtraction stopping
  at 0.
\<close>

theorem get_time_spec:
  "(ringbuffer sink = None \<longrightarrow> gst_base_audio_sink_get_time sink = GST_CLOCK_TIME_NONE)
   \<and> (\<forall>rb. ringbuffer sink = Some rb \<longrightarrow>
        (rate (spec rb) = 0 \<longrightarrow> gst_base_audio_sink_get_time sink = GST_CLOCK_TIME_NONE)
      \<and> (rate (spec rb) \<noteq> 0 \<longrightarrow>
           gst_base_audio_sink_get_time sink =
             gst_util_uint64_scale_int
               (samples_done rb - min (samples_done rb) (guint_to_64 (delay rb)))
               GST_SECOND (rate (spec rb)) + us_latency sink)
      \<and> (0 <s rate (spec rb)
           \<and> (unat (samples_done rb) - unat (delay rb)) * 1000000000 div unat (rate (spec rb))
               + unat (us_latency sink) < 18446744073709551615 \<longrightarrow>
           gst_base_audio_sink_get_time sink \<noteq> GST_CLOCK_TIME_NONE
           \<and> unat (gst_base_audio_sink_get_time sink) =
               (unat (samples_done rb) - unat (delay rb)) * 1000000000 div unat (rate (spec rb))
                 + unat (us_latency sink)))"
proof (intro conjI allI impI)
  assume "ringbuffer sink = None"
  then show "gst_base_audio_sink_get_time sink = GST_CLOCK_TIME_NONE"
    by (simp add: gst_base_audio_sink_get_time_def)
next
  fix rb
  assume "ringbuffer sink = Some rb" "rate (spec rb) = 0"
  then show "gst_base_audio_sink_get_time sink = GST_CLOCK_TIME_NONE"
    by (simp add: gst_base_audio_sink_get_time_def)
next
  fix rb
  assume "ringbuffer sink = Some rb" "rate (spec rb) \<noteq> 0"
  then show "gst_base_audio_sink_get_time sink =
             gst_util_uint64_scale_int
               (samples_done rb - min (samples_done rb) (guint_to_64 (delay rb)))
               GST_SECOND (rate (spec rb)) + us_latency sink"
    by (rule get_time_Some)
next
  fix rb
  assume rb: "ringbuffer sink = Some rb"
    and h: "0 <s rate (spec rb)
           \<and> (unat (samples_done rb) - unat (delay rb)) * 1000000000 div unat (rate (spec rb))
               + unat (us_latency sink) < 18446744073709551615"
  from get_time_nat [OF rb] h
  have u: "unat (gst_base_audio_sink_get_time sink) =
               (unat (samples_done rb) - unat (delay rb)) * 1000000000 div unat (rate (spec rb))
                 + unat (us_latency sink)"
    by simp
  then show "unat (gst_base_audio_sink_get_time sink) =
               (unat (samples_done rb) - unat (delay rb)) * 1000000000 div unat (rate (spec rb))
                 + unat (us_latency sink)" .
  show "gst_base_audio_sink_get_time sink \<noteq> GST_CLOCK_TIME_NONE"
  proof
    assume "gst_base_audio_sink_get_time sink = GST_CLOCK_TIME_NONE"
    then have "unat (gst_base_audio_sink_get_time sink) = 18446744073709551615"
      by (simp add: GST_CLOCK_TIME_NONE_def unat_max64)
    with u h show False by simp
  qed
qed

theorem get_time_spec_witness:
  "ringbuffer ex_released = Some (ex_ringbuffer\<lparr>acquired := False\<rparr>)
   \<and> 0 <s rate (spec (ex_ringbuffer\<lparr>acquired := False\<rparr>))
   \<and> unat (gst_base_audio_sink_get_time ex_released) = 1000000000
   \<and> gst_base_audio_sink_get_time ex_released \<noteq> GST_CLOCK_TIME_NONE
   \<and> gst_base_audio_sink_get_time (ex_sink\<lparr>ringbuffer := None\<rparr>) = GST_CLOCK_TIME_NONE"
  using get_time_spec [of ex_released] get_time_spec [of "ex_sink\<lparr>ringbuffer := None\<rparr>"]
  by (simp add: example_defs word_eval scale_defs guint_to_64_def)

text \<open>The claim as first stated fails on a ring buffer that is present, not acquired and
  still holds a rate: the clock answers one second, not "no value".\<close>

theorem get_time_not_acquired_counterexample:
  "\<not> gst_ring_buffer_is_acquired (ringbuffer ex_released)
   \<and> gst_base_audio_sink_get_time ex_released = 1000000000
   \<and> gst_base_audio_sink_get_time ex_released \<noteq> GST_CLOCK_TIME_NONE"
  by (simp add: example_defs gst_ring_buffer_is_acquired_def gst_base_audio_sink_get_time_def
      gst_ring_buffer_samples_done_def gst_ring_buffer_delay_def scale_defs word_eval Let_def
      guint_to_64_def)

text \<open>
  Claim C6 (amended). For two reads of the time function on sinks with a ring buffer,
  the same rate and the same \<open>us_latency\<close>: if the played position
  \<open>samples_done - min(samples_done, delay)\<close> of the second read is not below that of the
  first, and the second time does not overflow 64 bits, then the second value is
  greater than or equal to the first. That \<open>samples_done\<close> does not decrease and that
  \<open>delay\<close> is bounded is not enough.
\<close>

theorem get_time_monotone:
  assumes r1: "ringbuffer s1 = Some r1" and r2: "ringbuffer s2 = Some r2"
    and same_rate: "rate (spec r1) = rate (spec r2)"
    and same_lat: "us_latency s1 = us_latency s2"
    and played: "samples_done r1 - min (samples_done r1) (guint_to_64 (delay r1))
                  \<le> samples_done r2 - min (samples_done r2) (guint_to_64 (delay r2))"
    and fits: "unat (gst_util_uint64_scale_int
                      (samples_done r2 - min (samples_done r2) (guint_to_64 (delay r2)))
                      GST_SECOND (rate (spec r2)))
                + unat (us_latency s2) < 2 ^ 64"
  shows "gst_base_audio_sink_get_time s1 \<le> gst_base_audio_sink_get_time s2"
proof (cases "rate (spec r2) = 0")
  case True
  with r1 r2 same_rate show ?thesis
    by (simp add: gst_base_audio_sink_get_time_def)
next
  case False
  let ?t1 = "gst_util_uint64_scale_int
               (samples_done r1 - min (samples_done r1) (guint_to_64 (delay r1)))
               GST_SECOND (rate (spec r2))"
  let ?t2 = "gst_util_uint64_scale_int
               (samples_done r2 - min (samples_done r2) (guint_to_64 (delay r2)))
               GST_SECOND (rate (spec r2))"
  from played have le: "unat ?t1 \<le> unat ?t2"
    using scale_int_mono [OF played] by (simp add: word_le_nat_alt)
  from False same_rate have g1: "gst_base_audio_sink_get_time s1 = ?t1 + us_latency s2"
    using get_time_Some [OF r1] same_lat by simp
  from False have g2: "gst_base_audio_sink_get_time s2 = ?t2 + us_latency s2"
    using get_time_Some [OF r2] by simp
  from le fits have "unat (?t1 + us_latency s2) = unat ?t1 + unat (us_latency s2)"
    and "unat (?t2 + us_latency s2) = unat ?t2 + unat (us_latency s2)"
    by (simp_all add: unat_word_ariths)
  with le show ?thesis
    by (simp add: g1 g2 word_le_nat_alt)
qed

theorem get_time_monotone_witness:
  "gst_base_audio_sink_get_time ex_sink \<le> gst_base_audio_sink_get_time ex_later
   \<and> gst_base_audio_sink_get_time ex_later = 1000000000"
  using get_time_monotone [of ex_sink ex_ringbuffer ex_later
      "ex_ringbuffer\<lparr>samples_done := 44541, delay := 441\<rparr>"]
  by (simp add: example_defs gst_base_audio_sink_get_time_def
      gst_ring_buffer_samples_done_def gst_ring_buffer_delay_def scale_defs word_eval Let_def
      guint_to_64_def)

text \<open>The claim as first stated fails: between the two reads the ring buffer stays
  acquired and not flushing, \<open>samples_done\<close> and \<open>us_latency\<close> do not change and
  \<open>delay\<close> stays below what the device has been handed, yet the second read is 10 ms
  behind the first.\<close>

theorem get_time_decreases_counterexample:
  "gst_ring_buffer_is_acquired (ringbuffer ex_sink)
   \<and> gst_ring_buffer_is_acquired (ringbuffer ex_queued)
   \<and> flushing (the (ringbuffer ex_sink)) = False
   \<and> flushing (the (ringbuffer ex_queued)) = False
   \<and> samples_done (the (ringbuffer ex_sink)) \<le> samples_done (the (ringbuffer ex_queued))
   \<and> us_latency ex_sink = us_latency ex_queued
   \<and> guint_to_64 (delay (the (ringbuffer ex_queued))) \<le> samples_done (the (ringbuffer ex_queued))
   \<and> gst_base_audio_sink_get_time ex_sink = 1000000000
   \<and> gst_base_audio_sink_get_time ex_queued = 990000000
   \<and> gst_base_audio_sink_get_time ex_queued < gst_base_audio_sink_get_time ex_sink"
  by (simp add: example_defs gst_ring_buffer_is_acquired_def gst_base_audio_sink_get_time_def
      gst_ring_buffer_samples_done_def gst_ring_buffer_delay_def scale_defs word_eval Let_def
      guint_to_64_def)

section \<open>Skew slaving\<close>

















text \<open>
  Claim C7. Skew slaving with a stored \<open>rate_num\<close> of 0: the code hands the 0 to
  \<open>clock_convert_external\<close>, whose scaling then has a zero denominator and answers
  \<open>G_MAXUINT64\<close>; only resample slaving replaces the rate by 1/1. For the calibration
  \<open>(0, 0, 0/1)\<close> the render times 5 s and 7 s come back as \<open>G_MAXUINT64\<close> from skew
  slaving and unchanged from resample slaving.
\<close>

theorem skew_slaving_zero_rate_num:
  "crate_num (provided_clock ex_zero_rate) = 0
   \<and> slave_method ex_zero_rate = GST_BASE_AUDIO_SINK_SLAVE_SKEW
   \<and> gst_base_audio_sink_skew_slaving ex_zero_rate 0 0 5000000000 7000000000
       = Inr (ex_zero_rate\<lparr>avg_skew := 0\<rparr>, G_MAXUINT64, G_MAXUINT64)
   \<and> gst_base_audio_sink_resample_slaving ex_zero_rate 5000000000 7000000000
       = (5000000000, 7000000000)"
  by (simp add: example_defs gst_base_audio_sink_skew_slaving_def
      gst_base_audio_sink_resample_slaving_def clock_convert_external_def scale_defs cast_defs
      word_eval Let_def c_sdiv_def signed_divide_int_def)

section \<open>The fallback sample position within range\<close>

text \<open>
  As long as the 32-bit arithmetic of \<open>get_offset\<close> does not overflow (the segment that
  \<open>next_sample\<close> lies in and the product \<open>(segdone - segbase + 1) \<cdot> samples_per_seg\<close>
  stay below \<open>2^31\<close>), the position it returns is never behind the segments the device
  has processed: its segment index is at least \<open>segdone - segbase\<close>.
\<close>

theorem get_offset_in_range:
  assumes rb: "ringbuffer sink = Some rb"
    and sps: "0 <s samples_per_seg rb"
    and seg: "segbase rb \<le>s segdone rb"
    and prod: "(sint (segdone rb) - sint (segbase rb) + 1) * sint (samples_per_seg rb)
                < 2147483648"
    and idx: "unat (if next_sample sink = - 1 then 0 else next_sample sink)
                div nat (sint (samples_per_seg rb)) < 2147483648"
  shows "\<exists>pos. gst_base_audio_sink_get_offset sink = Inr pos
           \<and> sint (segdone rb) - sint (segbase rb)
               \<le> int (unat pos div nat (sint (samples_per_seg rb)))"
proof -
  let ?S = "sint (samples_per_seg rb)"
  let ?D = "sint (segdone rb) - sint (segbase rb)"
  let ?sample = "(if next_sample sink = - 1 then 0 else next_sample sink)"
  let ?q = "?sample div gint_to_64 (samples_per_seg rb)"
  let ?d = "segdone rb - segbase rb"
  from sps have S: "0 < ?S"
    by (simp add: word_sless_alt)
  from seg have D0: "0 \<le> ?D"
    by (simp add: word_sle_eq)
  from S D0 have "(?D + 1) * 1 \<le> (?D + 1) * ?S"
    by (intro mult_left_mono) simp_all
  with prod have Dlt: "?D + 1 < 2147483648"
    by simp
  from S have us: "unat (gint_to_64 (samples_per_seg rb)) = nat ?S"
    by (intro unat_gint_to_64) simp
  with S have nz: "gint_to_64 (samples_per_seg rb) \<noteq> 0"
    by (auto simp add: unat_eq_zero [symmetric] simp del: unat_eq_zero)
  have uq: "unat ?q = unat ?sample div nat ?S"
    by (simp only: unat_div us)
  with idx have W: "sint (to_gint ?q) = int (unat ?sample div nat ?S)"
    by (simp only: sint_to_gint)
  from D0 Dlt have sd: "sint ?d = ?D"
    by (intro sint32_diff) simp_all
  from W sd idx D0 Dlt have diff: "sint (to_gint ?q - ?d) = int (unat ?sample div nat ?S) - ?D"
    by (simp add: sint32_diff)
  from rb nz have run: "gst_base_audio_sink_get_offset sink =
      (if to_gint ?q - ?d <s 0 then Inr (gint_to_64 ((?d + 1) * samples_per_seg rb))
       else Inr ?sample)"
    by (simp add: gst_base_audio_sink_get_offset_def guint64_div_def Let_def)
  show ?thesis
  proof (cases "to_gint ?q - ?d <s 0")
    case True
    from sd D0 Dlt have s1: "sint (?d + 1) = ?D + 1"
      by (simp add: sint32_add)
    from S D0 have p0: "0 \<le> (?D + 1) * ?S"
      by simp
    with s1 prod have sp: "sint ((?d + 1) * samples_per_seg rb) = (?D + 1) * ?S"
      by (simp add: sint32_mult)
    with p0 have "unat (gint_to_64 ((?d + 1) * samples_per_seg rb)) = nat ((?D + 1) * ?S)"
      by (simp add: unat_gint_to_64)
    also from S D0 have "nat ((?D + 1) * ?S) div nat ?S = nat (?D + 1)"
      by (simp add: nat_mult_distrib)
    finally have "int (unat (gint_to_64 ((?d + 1) * samples_per_seg rb)) div nat ?S) = ?D + 1"
      using D0 by simp
    with True run show ?thesis
      by simp
  next
    case False
    with diff have "?D \<le> int (unat ?sample div nat ?S)"
      by (simp add: word_sless_alt)
    with False run show ?thesis
      by simp
  qed
qed

theorem get_offset_in_range_witness:
  "\<exists>pos. gst_base_audio_sink_get_offset ex_sink = Inr pos
          \<and> sint (segdone ex_ringbuffer) - sint (segbase ex_ringbuffer)
              \<le> int (unat pos div nat (sint (samples_per_seg ex_ringbuffer)))"
proof -
  have rb: "ringbuffer ex_sink = Some ex_ringbuffer"
    by (simp add: ex_sink_def)
  have sps: "0 <s samples_per_seg ex_ringbuffer"
    and seg: "segbase ex_ringbuffer \<le>s segdone ex_ringbuffer"
    and prod: "(sint (segdone ex_ringbuffer) - sint (segbase ex_ringbuffer) + 1)
                 * sint (samples_per_seg ex_ringbuffer) < 2147483648"
    by (simp_all add: ex_ringbuffer_def word_eval)
  have idx: "unat (if next_sample ex_sink = - 1 then 0 else next_sample ex_sink)
                div nat (sint (samples_per_seg ex_ringbuffer)) < 2147483648"
    by (simp add: ex_sink_def ex_ringbuffer_def)
  from get_offset_in_range [OF rb sps seg prod idx] show ?thesis .
qed

section \<open>The fallback sample position after a long run\<close>

text \<open>
  Claim C10. After 9739154 segments of 441 samples, with no \<open>next_sample\<close>, the 32-bit
  product \<open>(segdone + 1) * sps\<close> is \<open>2^32 + 59\<close> and wraps to 59: \<open>get_offset\<close>
  returns sample 59, which lies in segment 0, behind the 9739154 segments the device
  has processed.
\<close>

theorem get_offset_overflow:
  "segbase (the (ringbuffer ex_long_run)) \<le>s segdone (the (ringbuffer ex_long_run))
   \<and> 0 <s samples_per_seg (the (ringbuffer ex_long_run))
   \<and> gst_base_audio_sink_get_offset ex_long_run = Inr 59
   \<and> segdone (the (ringbuffer ex_long_run)) - segbase (the (ringbuffer ex_long_run)) = 9739154
   \<and> (59 :: nat) div 441 < 9739154"
  by (simp add: example_defs gst_base_audio_sink_get_offset_def guint64_div_def cast_defs
      word_eval Let_def)

section \<open>Buffers rejected before the commit loop\<close>

text \<open>
  Claim C9. A buffer that \<open>render\<close> rejects before the commit loop leaves the sink as it
  was, ring buffer and its commits included: with a ring buffer that is not acquired
  the result is the not-negotiated error; with a size that is not a multiple of
  \<open>bytes_per_sample\<close> it is the wrong-size error; with a valid timestamp and a clip that
  leaves nothing of the buffer inside the segment it is the success result.
\<close>

theorem render_rejects_leave_state:
  "(\<not> gst_ring_buffer_is_acquired (ringbuffer sink) \<longrightarrow>
      gst_base_audio_sink_render env buf sink
        = Inr (GST_FLOW_NOT_NEGOTIATED, sink, [ERROR_STREAM_FORMAT]))
   \<and> (\<forall>rb. ringbuffer sink = Some rb \<and> acquired rb \<and> bytes_per_sample (spec rb) \<noteq> 0 \<longrightarrow>
          (buf_size buf mod bytes_per_sample (spec rb) \<noteq> 0 \<longrightarrow>
             gst_base_audio_sink_render env buf sink
               = Inr (GST_FLOW_ERROR, sink, [ERROR_STREAM_WRONG_TYPE]))
        \<and> (buf_size buf mod bytes_per_sample (spec rb) = 0
            \<and> buf_timestamp buf \<noteq> GST_CLOCK_TIME_NONE
            \<and> segment_clip env (buf_timestamp buf)
                 (buf_timestamp buf
                  + gst_util_uint64_scale_int
                      (guint_to_64 (buf_size buf div bytes_per_sample (spec rb)))
                      GST_SECOND (rate (spec rb))) = None \<longrightarrow>
             gst_base_audio_sink_render env buf sink = Inr (GST_FLOW_OK, sink, [])))"
  by (simp add: gst_base_audio_sink_render_def gst_ring_buffer_is_acquired_def guint_mod_def
      render_timed_def Let_def)

theorem render_rejects_leave_state_witness:
  "gst_base_audio_sink_render ex_env ex_buf ex_released
     = Inr (GST_FLOW_NOT_NEGOTIATED, ex_released, [ERROR_STREAM_FORMAT])
   \<and> gst_base_audio_sink_render ex_env (ex_buf\<lparr>buf_size := 1765\<rparr>) ex_playing
     = Inr (GST_FLOW_ERROR, ex_playing, [ERROR_STREAM_WRONG_TYPE])
   \<and> gst_base_audio_sink_render ex_env (ex_buf\<lparr>buf_timestamp := 20000000000\<rparr>) ex_playing
     = Inr (GST_FLOW_OK, ex_playing, [])"
proof -
  have a: "\<not> gst_ring_buffer_is_acquired (ringbuffer ex_released)"
    by (simp add: render_example_defs gst_ring_buffer_is_acquired_def)
  have b: "ringbuffer ex_playing = Some ex_ringbuffer \<and> acquired ex_ringbuffer
            \<and> bytes_per_sample (spec ex_ringbuffer) \<noteq> 0"
    by (simp add: render_example_defs)
  have c: "buf_size (ex_buf\<lparr>buf_size := 1765\<rparr>) mod bytes_per_sample (spec ex_ringbuffer) \<noteq> 0"
    by (simp add: render_example_defs)
  have d: "buf_size (ex_buf\<lparr>buf_timestamp := 20000000000\<rparr>) mod bytes_per_sample (spec ex_ringbuffer) = 0
     \<and> buf_timestamp (ex_buf\<lparr>buf_timestamp := 20000000000\<rparr>) \<noteq> GST_CLOCK_TIME_NONE
     \<and> segment_clip ex_env (buf_timestamp (ex_buf\<lparr>buf_timestamp := 20000000000\<rparr>))
          (buf_timestamp (ex_buf\<lparr>buf_timestamp := 20000000000\<rparr>)
           + gst_util_uint64_scale_int
               (guint_to_64 (buf_size (ex_buf\<lparr>buf_timestamp := 20000000000\<rparr>)
                  div bytes_per_sample (spec ex_ringbuffer)))
               GST_SECOND (rate (spec ex_ringbuffer))) = None"
    by (simp add: render_example_defs GST_CLOCK_TIME_NONE_def word_eval)
  from a render_rejects_leave_state [of ex_released ex_env ex_buf]
  have r1: "gst_base_audio_sink_render ex_env ex_buf ex_released
     = Inr (GST_FLOW_NOT_NEGOTIATED, ex_released, [ERROR_STREAM_FORMAT])"
    by blast
  note u = render_rejects_leave_state [of ex_playing ex_env "ex_buf\<lparr>buf_size := 1765\<rparr>",
      THEN conjunct2, rule_format, OF b, THEN conjunct1, THEN mp, OF c]
  from u have r2: "gst_base_audio_sink_render ex_env (ex_buf\<lparr>buf_size := 1765\<rparr>) ex_playing
     = Inr (GST_FLOW_ERROR, ex_playing, [ERROR_STREAM_WRONG_TYPE])" .
  note t = render_rejects_leave_state [of ex_playing ex_env "ex_buf\<lparr>buf_timestamp := 20000000000\<rparr>",
      THEN conjunct2, rule_format, OF b, THEN conjunct2, THEN mp, OF d]
  from t have r3: "gst_base_audio_sink_render ex_env (ex_buf\<lparr>buf_timestamp := 20000000000\<rparr>) ex_playing
     = Inr (GST_FLOW_OK, ex_playing, [])" .
  from r1 r2 r3 show ?thesis by simp
qed

section \<open>The commit loop\<close>


















section \<open>Alignment with the previous buffer\<close>

lemma render_align_cases:
  assumes "\<not> discont" and "next_sample sink \<noteq> - 1"
  shows "render_align sink r discont forward slaved render_start render_stop =
     (let sample_offset = (if forward then render_start else render_stop);
          diff = (if sample_offset \<ge> next_sample sink
                  then sample_offset - next_sample sink
                  else next_sample sink - sample_offset);
          align = next_sample sink - sample_offset
      in if diff <s gint_to_64 (c_sdiv r DIFF_TOLERANCE) then
           (sink\<lparr>last_align := align\<rparr>, render_start + align,
            (if slaved \<and> slave_method sink = GST_BASE_AUDIO_SINK_SLAVE_RESAMPLE
             then render_stop else render_stop + align), [])
         else
           (sink\<lparr>last_align := 0\<rparr>, render_start, render_stop,
            [WARNING_CORE_CLOCK (gst_util_uint64_scale_int diff GST_SECOND r)]))"
  using assms
  by (simp add: render_align_def Let_def)

text \<open>
  Claim C1 (amended). For every buffer \<open>render\<close> processes with a valid timestamp, sync
  enabled, no \<open>DISCONT\<close> flag and \<open>next_sample\<close> set after the slaving: with
  \<open>sample_offset\<close> the slaved \<open>render_start\<close> (\<open>render_stop\<close> for a negative segment
  rate) and \<open>diff = |sample_offset - next_sample|\<close>, read as a signed 64-bit value: if
  \<open>diff < rate / 2\<close> then \<open>align = next_sample - sample_offset\<close> is added to
  \<open>render_start\<close> (and to \<open>render_stop\<close> unless the sink is slaved in resample mode),
  \<open>last_align\<close> is set to \<open>align\<close> and no warning is posted; otherwise the warning is
  posted, the two positions stay and \<open>last_align\<close> is set to 0. The positions and the
  sink so obtained are what the commit loop is run with.
\<close>

theorem render_alignment:
  assumes rb: "ringbuffer sink = Some rb" and acq: "acquired rb"
    and bps: "bytes_per_sample (spec rb) \<noteq> 0"
    and size: "buf_size buf mod bytes_per_sample (spec rb) = 0"
    and ts: "buf_timestamp buf \<noteq> GST_CLOCK_TIME_NONE"
    and clip: "segment_clip env (buf_timestamp buf)
                 (buf_timestamp buf
                  + gst_util_uint64_scale_int
                      (guint_to_64 (buf_size buf div bytes_per_sample (spec rb)))
                      GST_SECOND (rate (spec rb))) = Some (ctime, cstop)"
    and clipped: "render_clip (rate (spec rb)) (bytes_per_sample (spec rb)) ctime cstop
                    (buf_size buf div bytes_per_sample (spec rb)) 0 (buf_timestamp buf)
                    (buf_timestamp buf
                     + gst_util_uint64_scale_int
                         (guint_to_64 (buf_size buf div bytes_per_sample (spec rb)))
                         GST_SECOND (rate (spec rb)))
                  = (samples, data, time, stop)"
    and sync: "clock env \<noteq> NO_CLOCK" "sync env"
    and pos: "render_sync_position env sink (rate (spec rb)) time stop
                = Inr (sink1, render_start, render_stop)"
    and nd: "\<not> buf_discont buf" and ns: "next_sample sink1 \<noteq> - 1"
  shows "gst_base_audio_sink_render env buf sink =
     (let sample_offset = (if segment_rate_nonneg env then render_start else render_stop);
          diff = (if sample_offset \<ge> next_sample sink1
                  then sample_offset - next_sample sink1
                  else next_sample sink1 - sample_offset);
          align = next_sample sink1 - sample_offset;
          render_stop1 = (if clock env \<noteq> PROVIDED_CLOCK
                             \<and> slave_method sink1 = GST_BASE_AUDIO_SINK_SLAVE_RESAMPLE
                          then render_stop else render_stop + align)
      in if diff <s gint_to_64 (c_sdiv (rate (spec rb)) DIFF_TOLERANCE) then
           render_commit env (sink1\<lparr>last_align := align\<rparr>) rb (render_start + align)
             render_stop1 data samples (to_gint (render_stop1 - (render_start + align))) stop []
         else
           render_commit env (sink1\<lparr>last_align := 0\<rparr>) rb render_start render_stop
             data samples (to_gint (render_stop - render_start)) stop
             [WARNING_CORE_CLOCK
                (gst_util_uint64_scale_int diff GST_SECOND (rate (spec rb)))])"
proof -
  have gate: "gst_base_audio_sink_render env buf sink =
      render_timed env buf sink rb (buf_size buf div bytes_per_sample (spec rb))
        (buf_timestamp buf)
        (buf_timestamp buf
         + gst_util_uint64_scale_int
             (guint_to_64 (buf_size buf div bytes_per_sample (spec rb)))
             GST_SECOND (rate (spec rb)))"
    using rb acq bps size ts
    by (simp add: gst_base_audio_sink_render_def gst_ring_buffer_is_acquired_def guint_mod_def
        Let_def)
  have timed: "render_timed env buf sink rb (buf_size buf div bytes_per_sample (spec rb))
        (buf_timestamp buf)
        (buf_timestamp buf
         + gst_util_uint64_scale_int
             (guint_to_64 (buf_size buf div bytes_per_sample (spec rb)))
             GST_SECOND (rate (spec rb))) =
      (case render_align sink1 (rate (spec rb)) (buf_discont buf) (segment_rate_nonneg env)
              (clock env \<noteq> PROVIDED_CLOCK) render_start render_stop of
         (sink2, render_start1, render_stop1, msgs) \<Rightarrow>
           render_commit env sink2 rb render_start1 render_stop1 data samples
             (to_gint (render_stop1 - render_start1)) stop msgs)"
    using clip clipped sync pos
    by (simp add: render_timed_def Let_def)
  show ?thesis
    by (simp add: gate timed render_align_cases [OF nd ns] Let_def)
qed

lemma ex_playing_position:
  "render_sync_position ex_env ex_playing 44100 1000000000 1010000000
     = Inr (ex_playing\<lparr>avg_skew := 0\<rparr>, 44100, 44541)"
  by (simp add: render_example_defs render_defs scale_defs cast_defs word_eval Let_def)

theorem render_alignment_witness:
  "gst_base_audio_sink_render ex_env ex_buf ex_playing
     = render_commit ex_env (ex_playing\<lparr>avg_skew := 0, last_align := 10\<rparr>) ex_ringbuffer
         44110 44551 0 441 441 1010000000 []"
proof -
  have rb: "ringbuffer ex_playing = Some ex_ringbuffer"
    and acq: "acquired ex_ringbuffer"
    and bps: "bytes_per_sample (spec ex_ringbuffer) \<noteq> 0"
    and size: "buf_size ex_buf mod bytes_per_sample (spec ex_ringbuffer) = 0"
    and ts: "buf_timestamp ex_buf \<noteq> GST_CLOCK_TIME_NONE"
    by (simp_all add: render_example_defs GST_CLOCK_TIME_NONE_def)
  have stop0: "buf_timestamp ex_buf
                + gst_util_uint64_scale_int
                    (guint_to_64 (buf_size ex_buf div bytes_per_sample (spec ex_ringbuffer)))
                    GST_SECOND (rate (spec ex_ringbuffer)) = 1010000000"
    by (simp add: render_example_defs scale_defs cast_defs word_eval)
  have clip: "segment_clip ex_env (buf_timestamp ex_buf)
                 (buf_timestamp ex_buf
                  + gst_util_uint64_scale_int
                      (guint_to_64 (buf_size ex_buf div bytes_per_sample (spec ex_ringbuffer)))
                      GST_SECOND (rate (spec ex_ringbuffer))) = Some (1000000000, 1010000000)"
    unfolding stop0 by (simp add: render_example_defs word_eval)
  have clipped: "render_clip (rate (spec ex_ringbuffer)) (bytes_per_sample (spec ex_ringbuffer))
                    1000000000 1010000000
                    (buf_size ex_buf div bytes_per_sample (spec ex_ringbuffer)) 0
                    (buf_timestamp ex_buf)
                    (buf_timestamp ex_buf
                     + gst_util_uint64_scale_int
                         (guint_to_64 (buf_size ex_buf div bytes_per_sample (spec ex_ringbuffer)))
                         GST_SECOND (rate (spec ex_ringbuffer)))
                  = (441, 0, 1000000000, 1010000000)"
    unfolding stop0 by (simp add: render_example_defs render_clip_def word_eval Let_def)
  have sync: "clock ex_env \<noteq> NO_CLOCK" "sync ex_env"
    by (simp_all add: ex_env_def)
  have pos: "render_sync_position ex_env ex_playing (rate (spec ex_ringbuffer))
               1000000000 1010000000
                = Inr (ex_playing\<lparr>avg_skew := 0\<rparr>, 44100, 44541)"
    using ex_playing_position by (simp add: ex_ringbuffer_def)
  have nd: "\<not> buf_discont ex_buf"
    by (simp add: ex_buf_def)
  have ns: "next_sample (ex_playing\<lparr>avg_skew := 0\<rparr>) \<noteq> - 1"
    by (simp add: ex_playing_def ex_sink_def)
  from render_alignment [OF rb acq bps size ts clip clipped sync pos nd ns]
  show ?thesis
    by (simp add: render_example_defs Let_def DIFF_TOLERANCE_def c_sdiv_def
        signed_divide_int_def cast_defs word_eval)
qed

text \<open>The claim as first stated fails in its last part: a buffer half a second away from
  \<open>next_sample\<close> posts the warning and leaves \<open>last_align\<close> at 0, not at the 5 it
  was.\<close>

theorem render_alignment_counterexample:
  "buf_timestamp ex_buf \<noteq> GST_CLOCK_TIME_NONE
   \<and> sync ex_env_drifted
   \<and> buf_discont ex_buf = False
   \<and> next_sample ex_drifted = 100
   \<and> last_align ex_drifted = 5
   \<and> gst_base_audio_sink_render ex_env_drifted ex_buf ex_drifted
     = Inr (GST_FLOW_OK,
            ex_drifted\<lparr>avg_skew := 0, last_align := 0, next_sample := 44541,
                       ringbuffer := Some (ex_ringbuffer\<lparr>commits :=
                         [\<lparr>commit_sample = 44100, commit_data = 0, commit_in_samples = 441,
                           commit_out_samples = 441, commit_accum = 0\<rparr>]\<rparr>)\<rparr>,
            [WARNING_CORE_CLOCK 997732426])
   \<and> last_align
        (ex_drifted\<lparr>avg_skew := 0, last_align := 0, next_sample := 44541,
                       ringbuffer := Some (ex_ringbuffer\<lparr>commits :=
                         [\<lparr>commit_sample = 44100, commit_data = 0, commit_in_samples = 441,
                           commit_out_samples = 441, commit_accum = 0\<rparr>]\<rparr>)\<rparr>)
       \<noteq> last_align ex_drifted"
  by (simp add: render_example_defs render_defs scale_defs cast_defs word_eval Let_def)

end
